theory Spec2Isabelle
  imports Complex_Main "HOL-Library.Char_ord" "HOL-Library.List_Lexorder"
begin

section \<open>Conventions\<close>

text \<open>
  A shallow embedding of the analysis core of owl-eval: the statistical tests of
  \<^verbatim>\<open>src/eval/analysis/statistical_tests.py\<close>, the aggregation and reliability
  code of \<^verbatim>\<open>src/matrix-game-eval/analysis/analyzer.py\<close> and the comparison
  randomizer of \<^verbatim>\<open>src/matrix-game-eval/evaluation/ab_testing.py\<close>.

  Python floats are modelled by real numbers; where the code can produce an infinity or
  a NaN the value is an \<open>npfloat\<close>. Counts are natural numbers, converted to reals
  before any subtraction. Every \<^verbatim>\<open>raise\<close> of the source, and every exception a
  Python operation of the source throws, is an \<open>Inl\<close> of the result.
\<close>

datatype error =
    KeyError string
  | TypeError
  | ValueError
  | ZeroDivisionError
  | LibraryError

datatype npfloat = Finite real | PosInf | NegInf | NaN

subsection \<open>Dictionaries\<close>

text \<open>
  A Python dict is an association list in insertion order; \<open>d[k]\<close> raises KeyError on
  a missing key and \<open>d.get(k, v)\<close> answers \<open>v\<close>.
\<close>

type_synonym ('k, 'v) dict = "('k \<times> 'v) list"

definition getitem :: "(string, 'v) dict \<Rightarrow> string \<Rightarrow> error + 'v" where
  "getitem d k = (case map_of d k of None \<Rightarrow> Inl (KeyError k) | Some v \<Rightarrow> Inr v)"

definition get_default :: "('k, 'v) dict \<Rightarrow> 'k \<Rightarrow> 'v \<Rightarrow> 'v" where
  "get_default d k v = (case map_of d k of None \<Rightarrow> v | Some w \<Rightarrow> w)"

text \<open>
  \<open>setdefault_update k dflt f d\<close> is \<^verbatim>\<open>d[k] = f(d[k])\<close> on a defaultdict whose
  factory gives \<open>dflt\<close>: a missing key is inserted last.
\<close>

fun setdefault_update :: "'k \<Rightarrow> 'v \<Rightarrow> ('v \<Rightarrow> 'v) \<Rightarrow> ('k, 'v) dict \<Rightarrow> ('k, 'v) dict" where
  "setdefault_update k dflt f [] = [(k, f dflt)]"
| "setdefault_update k dflt f ((k', v) # d) =
     (if k = k' then (k', f v) # d else (k', v) # setdefault_update k dflt f d)"

section \<open>Library functions the source calls\<close>

subsection \<open>scipy.stats: the binomial distribution\<close>

definition binom_pmf :: "nat \<Rightarrow> real \<Rightarrow> int \<Rightarrow> real" where
  "binom_pmf n p k =
     (if k < 0 \<or> int n < k then 0
      else real (n choose nat k) * p ^ nat k * (1 - p) ^ (n - nat k))"

definition binom_cdf :: "nat \<Rightarrow> real \<Rightarrow> int \<Rightarrow> real" where
  "binom_cdf n p k = (\<Sum>i \<leftarrow> [0 ..< nat (k + 1)]. binom_pmf n p (int i))"

definition binom_sf :: "nat \<Rightarrow> real \<Rightarrow> int \<Rightarrow> real" where
  "binom_sf n p k = 1 - binom_cdf n p k"

text \<open>
  \<^verbatim>\<open>stats.binom_test(x, n, p, alternative='two-sided')\<close>: the argument \<open>x\<close> is cast
  to an integer, \<open>n < x\<close> is a ValueError, and \<open>x = p * n\<close> is answered \<open>1\<close> by a
  shortcut; otherwise the outcomes no more likely than \<open>x\<close> (up to the relative
  tolerance \<open>1 + 1e-7\<close>) are summed from both tails and the sum is capped at \<open>1\<close>.
\<close>

definition binom_test :: "real \<Rightarrow> nat \<Rightarrow> real \<Rightarrow> error + real" where
  "binom_test x0 n p =
     (let x = (if 0 \<le> x0 then \<lfloor>x0\<rfloor> else \<lceil>x0\<rceil>) in
      if int n < x then Inl ValueError
      else if p > 1 \<or> p < 0 then Inl ValueError
      else
        let d = binom_pmf n p x; rerr = 1 + 1 / 10 ^ 7 in
        if real_of_int x = p * real n then Inr 1
        else if real_of_int x < p * real n then
          let y = int (length (filter (\<lambda>i. binom_pmf n p i \<le> d * rerr)
                                 [\<lceil>p * real n\<rceil> .. int n]))
          in Inr (min 1 (binom_cdf n p x + binom_sf n p (int n - y)))
        else
          let y = int (length (filter (\<lambda>i. binom_pmf n p i \<le> d * rerr)
                                 [0 .. \<lfloor>p * real n\<rfloor>]))
          in Inr (min 1 (binom_cdf n p (y - 1) + binom_sf n p (x - 1))))"

text \<open>
  \<^verbatim>\<open>stats.binom.interval(confidence, n, p)\<close>: the pair of quantiles at
  \<open>(1 - confidence) / 2\<close> and \<open>(1 + confidence) / 2\<close>, a quantile being the least
  \<open>k\<close> whose cumulative probability reaches the level.
\<close>

definition binom_ppf :: "nat \<Rightarrow> real \<Rightarrow> real \<Rightarrow> nat" where
  "binom_ppf n p q =
     (case find (\<lambda>k. q \<le> binom_cdf n p (int k)) [0 ..< Suc n] of
        Some k \<Rightarrow> k
      | None \<Rightarrow> n)"

definition binom_interval :: "real \<Rightarrow> nat \<Rightarrow> real \<Rightarrow> nat \<times> nat" where
  "binom_interval confidence n p =
     (binom_ppf n p ((1 - confidence) / 2), binom_ppf n p ((1 + confidence) / 2))"

subsection \<open>scipy.stats: the chi-square survival function, one degree of freedom\<close>




subsection \<open>numpy: reductions and float arithmetic\<close>

text \<open>
  \<open>np_mean\<close> and \<open>np_std\<close> are used on non-empty lists only; \<open>np_mean_f\<close> is the
  mean where the list may be empty, which numpy answers with NaN.
\<close>

definition np_mean :: "real list \<Rightarrow> real" where
  "np_mean xs = sum_list xs / real (length xs)"

definition np_std :: "real list \<Rightarrow> real" where
  "np_std xs = sqrt (np_mean (map (\<lambda>x. (x - np_mean xs) ^ 2) xs))"

definition np_mean_f :: "real list \<Rightarrow> npfloat" where
  "np_mean_f xs = (if xs = [] then NaN else Finite (np_mean xs))"

fun np_sub :: "npfloat \<Rightarrow> npfloat \<Rightarrow> npfloat" where
  "np_sub NaN _ = NaN"
| "np_sub _ NaN = NaN"
| "np_sub (Finite a) (Finite b) = Finite (a - b)"
| "np_sub (Finite a) PosInf = NegInf"
| "np_sub (Finite a) NegInf = PosInf"
| "np_sub PosInf PosInf = NaN"
| "np_sub PosInf _ = PosInf"
| "np_sub NegInf NegInf = NaN"
| "np_sub NegInf _ = NegInf"

text \<open>Comparisons of a float with zero: every comparison with NaN is false.\<close>

fun np_le0 :: "npfloat \<Rightarrow> bool" where
  "np_le0 (Finite a) = (a \<le> 0)"
| "np_le0 NegInf = True"
| "np_le0 _ = False"

fun np_ge0 :: "npfloat \<Rightarrow> bool" where
  "np_ge0 (Finite a) = (0 \<le> a)"
| "np_ge0 PosInf = True"
| "np_ge0 _ = False"

fun np_lt0 :: "npfloat \<Rightarrow> bool" where
  "np_lt0 (Finite a) = (a < 0)"
| "np_lt0 NegInf = True"
| "np_lt0 _ = False"

fun np_gt0 :: "npfloat \<Rightarrow> bool" where
  "np_gt0 (Finite a) = (0 < a)"
| "np_gt0 PosInf = True"
| "np_gt0 _ = False"

text \<open>
  \<^verbatim>\<open>np.log\<close>: minus infinity at zero, NaN below zero (each with a warning, no
  exception).
\<close>

fun np_log :: "npfloat \<Rightarrow> npfloat" where
  "np_log (Finite x) = (if x = 0 then NegInf else if x < 0 then NaN else Finite (ln x))"
| "np_log PosInf = PosInf"
| "np_log NegInf = NaN"
| "np_log NaN = NaN"

text \<open>
  \<^verbatim>\<open>np.percentile(a, q)\<close> with the default linear interpolation: \<open>q\<close> outside
  \<open>[0, 100]\<close> is a ValueError; a NaN among the values, or no value at all, gives NaN.
\<close>

fun finite_values :: "npfloat list \<Rightarrow> real list option" where
  "finite_values [] = Some []"
| "finite_values (Finite x # xs) =
     (case finite_values xs of None \<Rightarrow> None | Some ys \<Rightarrow> Some (x # ys))"
| "finite_values (_ # xs) = None"

definition interpolate :: "real list \<Rightarrow> real \<Rightarrow> real" where
  "interpolate sorted_values q =
     (let pos = q / 100 * real (length sorted_values - 1);
          lo = nat \<lfloor>pos\<rfloor>;
          hi = min (lo + 1) (length sorted_values - 1)
      in sorted_values ! lo
         + (sorted_values ! hi - sorted_values ! lo) * (pos - real lo))"

definition np_percentile :: "npfloat list \<Rightarrow> real \<Rightarrow> error + npfloat" where
  "np_percentile a q =
     (if q < 0 \<or> 100 < q then Inl ValueError
      else case finite_values a of
             None \<Rightarrow> Inr NaN
           | Some xs \<Rightarrow> if xs = [] then Inr NaN else Inr (Finite (interpolate (sort xs) q)))"

text \<open>
  The process-wide generator behind \<^verbatim>\<open>np.random\<close> is a state \<open>'g\<close>;
  \<open>randint g n\<close> draws an index below \<open>n\<close> and gives the next state.
  \<^verbatim>\<open>np.random.choice(a, size, replace=True)\<close> draws \<open>size\<close> indices in turn; it draws
  nothing when \<open>size\<close> is zero.
\<close>

fun random_choice :: "('g \<Rightarrow> nat \<Rightarrow> nat \<times> 'g) \<Rightarrow> real list \<Rightarrow> nat \<Rightarrow> 'g \<Rightarrow> real list \<times> 'g" where
  "random_choice randint a 0 g = ([], g)"
| "random_choice randint a (Suc k) g =
     (let (i, g') = randint g (length a);
          (rest, g'') = random_choice randint a k g'
      in (a ! i # rest, g''))"

subsection \<open>statsmodels: multipletests\<close>

text \<open>
  \<^verbatim>\<open>multipletests(pvals, alpha=0.05, method)\<close> answers the rejection flags and the
  corrected p-values, in the order of its input. It divides by the number of tests before
  it looks at the method. For Bonferroni a test is rejected when
  \<open>p \<le> alpha / ntests\<close> and the corrected value is \<open>p * ntests\<close>, cut at \<open>1\<close>. The
  other methods are the argument \<open>other_methods\<close>.
\<close>

definition lower_char :: "char \<Rightarrow> char" where
  "lower_char c =
     (let n = (of_char c :: nat) in if 65 \<le> n \<and> n \<le> 90 then char_of (n + 32) else c)"

definition multipletests ::
  "(string \<Rightarrow> real list \<Rightarrow> error + bool list \<times> real list) \<Rightarrow> real list \<Rightarrow> string
     \<Rightarrow> error + bool list \<times> real list" where
  "multipletests other_methods pvals meth =
     (let ntests = length pvals; alphaf = 5 / 100 in
      if ntests = 0 then Inl ZeroDivisionError
      else if map lower_char meth \<in> set [''b'', ''bonf'', ''bonferroni''] then
        Inr (map (\<lambda>p. p \<le> alphaf / real ntests) pvals,
             map (\<lambda>p. min 1 (p * real ntests)) pvals)
      else other_methods meth pvals)"

section \<open>Statistical tests\<close>

subsection \<open>binomial_test\<close>

record binomial_result =
  p_value :: real
  win_rate_a :: real
  ci_lower :: real
  ci_upper :: real
  significant :: bool

definition binomial_test :: "nat \<Rightarrow> nat \<Rightarrow> nat \<Rightarrow> bool \<Rightarrow> error + binomial_result" where
  "binomial_test wins_a wins_b ties exclude_ties =
     (let n = (if exclude_ties then wins_a + wins_b else wins_a + wins_b + ties);
          k = (if exclude_ties then real wins_a else real wins_a + real ties / 2)
      in if n = 0 then
           Inr \<lparr>p_value = 1, win_rate_a = 1 / 2, ci_lower = 0, ci_upper = 1,
                significant = False\<rparr>
         else
           case binom_test k n (1 / 2) of
             Inl e \<Rightarrow> Inl e
           | Inr pv \<Rightarrow>
               let win_rate = k / real n;
                   ci = binom_interval (95 / 100) n win_rate
               in Inr \<lparr>p_value = pv, win_rate_a = win_rate,
                       ci_lower = real (fst ci) / real n,
                       ci_upper = real (snd ci) / real n,
                       significant = (pv < 5 / 100)\<rparr>)"

subsection \<open>mcnemar_test\<close>



subsection \<open>bootstrap_confidence_interval\<close>

record bootstrap_result =
  mean_diff :: npfloat
  boot_ci_lower :: npfloat
  boot_ci_upper :: npfloat
  boot_p_value :: npfloat
  boot_significant :: bool

fun bootstrap_loop ::
  "('g \<Rightarrow> nat \<Rightarrow> nat \<times> 'g) \<Rightarrow> real list \<Rightarrow> real list \<Rightarrow> nat \<Rightarrow> 'g \<Rightarrow> npfloat list \<times> 'g"
  where
  "bootstrap_loop randint scores_a scores_b 0 g = ([], g)"
| "bootstrap_loop randint scores_a scores_b (Suc k) g =
     (let (sample_a, g1) = random_choice randint scores_a (length scores_a) g;
          (sample_b, g2) = random_choice randint scores_b (length scores_b) g1;
          (rest, g3) = bootstrap_loop randint scores_a scores_b k g2
      in (np_sub (np_mean_f sample_a) (np_mean_f sample_b) # rest, g3))"

text \<open>The mean of a boolean array, NaN when it is empty.\<close>

definition fraction_where :: "(npfloat \<Rightarrow> bool) \<Rightarrow> npfloat list \<Rightarrow> npfloat" where
  "fraction_where P xs =
     (if xs = [] then NaN else Finite (real (length (filter P xs)) / real (length xs)))"

text \<open>\<^verbatim>\<open>min(2 * v, 1.0)\<close>: Python's \<open>min\<close> keeps a NaN first argument.\<close>

fun double_capped :: "npfloat \<Rightarrow> npfloat" where
  "double_capped (Finite v) = Finite (min (2 * v) 1)"
| "double_capped PosInf = Finite 1"
| "double_capped v = v"

text \<open>
  The function has four parameters and no generator or seed among them: the samples come
  from the process-wide generator, whose state \<open>g\<close> the model takes and gives back.
\<close>

definition bootstrap_confidence_interval ::
  "('g \<Rightarrow> nat \<Rightarrow> nat \<times> 'g) \<Rightarrow> real list \<Rightarrow> real list \<Rightarrow> nat \<Rightarrow> real \<Rightarrow> 'g
     \<Rightarrow> (error + bootstrap_result) \<times> 'g" where
  "bootstrap_confidence_interval randint scores_a scores_b n_bootstrap confidence_level g =
     (let original_diff = np_sub (np_mean_f scores_a) (np_mean_f scores_b);
          (bootstrap_diffs, g') = bootstrap_loop randint scores_a scores_b n_bootstrap g;
          alpha = 1 - confidence_level
      in case np_percentile bootstrap_diffs (alpha / 2 * 100) of
           Inl e \<Rightarrow> (Inl e, g')
         | Inr lower \<Rightarrow>
             (case np_percentile bootstrap_diffs ((1 - alpha / 2) * 100) of
                Inl e \<Rightarrow> (Inl e, g')
              | Inr upper \<Rightarrow>
                  let pv = (if np_gt0 original_diff
                            then fraction_where np_le0 bootstrap_diffs
                            else fraction_where np_ge0 bootstrap_diffs)
                  in (Inr \<lparr>mean_diff = original_diff, boot_ci_lower = lower,
                            boot_ci_upper = upper, boot_p_value = double_capped pv,
                            boot_significant = (np_gt0 lower \<or> np_lt0 upper)\<rparr>, g')))"

subsection \<open>bradley_terry_model\<close>

record comparison_row =
  row_model_a :: string
  row_model_b :: string
  winner :: string
  weight :: "real option"

record strength_result =
  strength :: npfloat
  se :: npfloat
  win_probability :: "real option"

definition model_list :: "comparison_row list \<Rightarrow> string list" where
  "model_list comparison_results =
     sort (remdups (map row_model_a comparison_results @ map row_model_b comparison_results))"

fun index_of :: "'a list \<Rightarrow> 'a \<Rightarrow> nat" where
  "index_of [] x = 0"
| "index_of (y # ys) x = (if x = y then 0 else Suc (index_of ys x))"

definition contrast_row :: "nat \<Rightarrow> nat \<Rightarrow> nat \<Rightarrow> real list" where
  "contrast_row n_models idx_a idx_b =
     (let c0 = replicate (n_models - 1) 0;
          c1 = (if idx_a > 0 then c0[idx_a - 1 := 1] else c0)
      in if idx_b > 0 then c1[idx_b - 1 := - 1] else c1)"

definition design_rows ::
  "string list \<Rightarrow> comparison_row list \<Rightarrow> (real list \<times> real \<times> real) list" where
  "design_rows models comparison_results =
     map (\<lambda>row. (contrast_row (length models) (index_of models (row_model_a row))
                     (index_of models (row_model_b row)),
                  if winner row = ''a'' then 1 else 0,
                  case weight row of None \<Rightarrow> 1 | Some w \<Rightarrow> w))
       (filter (\<lambda>row. winner row \<noteq> ''tie'') comparison_results)"

text \<open>
  \<^verbatim>\<open>strengths[1:] = values\<close> on an array of \<open>n\<close> zeros: the shapes must agree, or
  the right-hand side must have one element, which is broadcast.
\<close>

definition assign_tail :: "nat \<Rightarrow> real list \<Rightarrow> error + real list" where
  "assign_tail n vals =
     (if length vals = n - 1 then Inr (take n (0 # vals))
      else if length vals = 1 then Inr (take n (0 # replicate (n - 1) (hd vals)))
      else Inl ValueError)"

text \<open>
  The body of the \<^verbatim>\<open>try\<close>. The fit itself,
  \<^verbatim>\<open>sm.GLM(y, sm.add_constant(X), family=Binomial(), freq_weights=w).fit()\<close>, is the
  argument \<open>glm_fit\<close>, which answers the parameters and their standard errors or raises.
\<close>

definition fit_strengths ::
  "(real list list \<Rightarrow> real list \<Rightarrow> real list \<Rightarrow> error + real list \<times> real list)
     \<Rightarrow> string list \<Rightarrow> (real list \<times> real \<times> real) list
     \<Rightarrow> error + (string, strength_result) dict" where
  "fit_strengths glm_fit models design =
     (case glm_fit (map fst design) (map (fst \<circ> snd) design) (map (snd \<circ> snd) design) of
        Inl e \<Rightarrow> Inl e
      | Inr (params, bse) \<Rightarrow>
          (case assign_tail (length models) (drop 1 params) of
             Inl e \<Rightarrow> Inl e
           | Inr strengths \<Rightarrow>
               (case assign_tail (length models) (drop 1 bse) of
                  Inl e \<Rightarrow> Inl e
                | Inr ses \<Rightarrow>
                    let avg_strength = np_mean strengths;
                        normalized_strengths = map (\<lambda>x. x - avg_strength) strengths
                    in Inr (map (\<lambda>i. (models ! i,
                                 \<lparr>strength = Finite (normalized_strengths ! i),
                                  se = Finite (ses ! i),
                                  win_probability =
                                    Some (1 / (1 + exp (- (normalized_strengths ! i))))\<rparr>))
                              [0 ..< length models]))))"

definition wins_of :: "comparison_row list \<Rightarrow> string \<Rightarrow> nat" where
  "wins_of comparison_results m =
     length (filter (\<lambda>row. (row_model_a row = m \<and> winner row = ''a'')
                           \<or> (row_model_b row = m \<and> winner row = ''b'')) comparison_results)"

definition total_of :: "comparison_row list \<Rightarrow> string \<Rightarrow> nat" where
  "total_of comparison_results m =
     length (filter (\<lambda>row. row_model_a row = m \<or> row_model_b row = m) comparison_results)"

definition win_rates :: "comparison_row list \<Rightarrow> string list \<Rightarrow> (string, real) dict" where
  "win_rates comparison_results models =
     map (\<lambda>m. (m, real (wins_of comparison_results m)
                    / real (max (total_of comparison_results m) 1))) models"

text \<open>Division of Python floats raises on a zero divisor; division of numpy floats does not.\<close>

definition py_truediv :: "real \<Rightarrow> real \<Rightarrow> error + real" where
  "py_truediv a b = (if b = 0 then Inl ZeroDivisionError else Inr (a / b))"

fun np_odds :: "npfloat \<Rightarrow> npfloat" where
  "np_odds (Finite a) =
     (if 1 - a = 0 then (if a > 0 then PosInf else if a < 0 then NegInf else NaN)
      else Finite (a / (1 - a)))"
| "np_odds _ = NaN"

fun fallback_items :: "npfloat \<Rightarrow> (string, real) dict \<Rightarrow> error + (string, strength_result) dict"
  where
  "fallback_items avg_rate [] = Inr []"
| "fallback_items avg_rate ((m, rate) # rest) =
     (case py_truediv rate (1 - rate) of
        Inl e \<Rightarrow> Inl e
      | Inr odds \<Rightarrow>
          (case fallback_items avg_rate rest of
             Inl e \<Rightarrow> Inl e
           | Inr items \<Rightarrow>
               Inr ((m, \<lparr>strength = np_sub (np_log (Finite odds)) (np_log (np_odds avg_rate)),
                         se = PosInf, win_probability = Some rate\<rparr>) # items)))"

definition fallback_strengths ::
  "comparison_row list \<Rightarrow> string list \<Rightarrow> error + (string, strength_result) dict" where
  "fallback_strengths comparison_results models =
     (let rates = win_rates comparison_results models;
          avg_rate = np_mean_f (map snd rates)
      in fallback_items avg_rate rates)"

definition bradley_terry_model ::
  "(real list list \<Rightarrow> real list \<Rightarrow> real list \<Rightarrow> error + real list \<times> real list)
     \<Rightarrow> comparison_row list \<Rightarrow> error + (string, strength_result) dict" where
  "bradley_terry_model glm_fit comparison_results =
     (let models = model_list comparison_results;
          design = design_rows models comparison_results
      in if design = [] then
           Inr (map (\<lambda>m. (m, \<lparr>strength = Finite 0, se = PosInf, win_probability = None\<rparr>))
                  models)
         else
           case fit_strengths glm_fit models design of
             Inr results \<Rightarrow> Inr results
           | Inl e \<Rightarrow> fallback_strengths comparison_results models)"

subsection \<open>multiple_comparison_correction\<close>

record correction_result =
  original_p :: real
  corrected_p :: real
  corr_significant :: bool
  corr_method :: string

definition multiple_comparison_correction ::
  "(string \<Rightarrow> real list \<Rightarrow> error + bool list \<times> real list) \<Rightarrow> (string, real) dict \<Rightarrow> string
     \<Rightarrow> error + (string, correction_result) dict" where
  "multiple_comparison_correction other_methods p_values meth =
     (let test_names = map fst p_values;
          p_vals = map snd p_values
      in case multipletests other_methods p_vals meth of
           Inl e \<Rightarrow> Inl e
         | Inr (rejected, corrected) \<Rightarrow>
             Inr (map (\<lambda>i. (test_names ! i,
                          \<lparr>original_p = p_vals ! i, corrected_p = corrected ! i,
                           corr_significant = rejected ! i, corr_method = meth\<rparr>))
                    [0 ..< length test_names]))"

section \<open>Records of the A/B testing framework\<close>

datatype any = AStr string | AInt int | AReal real | AList "any list" | ADict "(string \<times> any) list"
  | ANone

record video_comparison =
  comparison_id :: string
  scenario_id :: any
  model_a_name :: string
  model_b_name :: string
  model_a_video_path :: string
  model_b_video_path :: string
  action_sequence :: any
  scenario_metadata :: "(string, any) dict"
  randomized_labels :: "(string, string) dict"
  created_at :: nat

record evaluation_result =
  result_id :: string
  result_comparison_id :: string
  evaluator_id :: string
  dimension_scores :: "(string, string) dict"
  detailed_ratings :: "(string, int) dict"
  completion_time_seconds :: real
  submitted_at :: nat

section \<open>The comparison randomizer\<close>

text \<open>
  A world model is its name and its \<^verbatim>\<open>generate_video(reference_image, actions,
  num_frames)\<close>, which may raise. The framework's directories are dicts from file name to
  content. What \<^verbatim>\<open>create_comparison\<close> reads from its environment is an argument of
  the model: the fresh \<^verbatim>\<open>uuid.uuid4()\<close>, the value \<^verbatim>\<open>random.random()\<close> would
  draw, and the clock. Failures of the file system are not modelled.
\<close>

record world_model =
  model_name :: string
  generate_video :: "any \<Rightarrow> any \<Rightarrow> any \<Rightarrow> error + any"

record framework =
  videos_dir :: string
  video_files :: "(string, any) dict"
  comparison_files :: "(string, video_comparison) dict"

definition write_file :: "('k, 'v) dict \<Rightarrow> 'k \<Rightarrow> 'v \<Rightarrow> ('k, 'v) dict" where
  "write_file files path content = setdefault_update path content (\<lambda>_. content) files"

definition replace_slash :: "string \<Rightarrow> string" where
  "replace_slash name = map (\<lambda>c. if c = CHR ''/'' then CHR ''_'' else c) name"

definition video_path :: "framework \<Rightarrow> string \<Rightarrow> string \<Rightarrow> string \<Rightarrow> string" where
  "video_path fw new_id slot name =
     videos_dir fw @ ''/'' @ new_id @ ''_model_'' @ slot @ ''_'' @ replace_slash name @ ''.mp4''"

definition save_video :: "framework \<Rightarrow> any \<Rightarrow> string \<Rightarrow> framework" where
  "save_video fw frames output_path =
     fw\<lparr>video_files := write_file (video_files fw) output_path frames\<rparr>"

definition save_comparison :: "framework \<Rightarrow> video_comparison \<Rightarrow> framework" where
  "save_comparison fw comparison =
     fw\<lparr>comparison_files :=
          write_file (comparison_files fw) (comparison_id comparison) comparison\<rparr>"

definition generate :: "world_model \<Rightarrow> (string, any) dict \<Rightarrow> any \<Rightarrow> error + any" where
  "generate m scenario reference_image =
     (case getitem scenario ''actions'' of
        Inl e \<Rightarrow> Inl e
      | Inr actions \<Rightarrow>
          (case getitem scenario ''duration_frames'' of
             Inl e \<Rightarrow> Inl e
           | Inr num_frames \<Rightarrow> generate_video m reference_image actions num_frames))"

definition create_comparison ::
  "string \<Rightarrow> real \<Rightarrow> nat \<Rightarrow> framework \<Rightarrow> world_model \<Rightarrow> world_model \<Rightarrow> (string, any) dict
     \<Rightarrow> any \<Rightarrow> bool \<Rightarrow> (error + video_comparison) \<times> framework" where
  "create_comparison new_id random_draw now fw model_a model_b scenario reference_image
     randomize_order =
     (case generate model_a scenario reference_image of
        Inl e \<Rightarrow> (Inl e, fw)
      | Inr video_a \<Rightarrow>
          (case generate model_b scenario reference_image of
             Inl e \<Rightarrow> (Inl e, fw)
           | Inr video_b \<Rightarrow>
               let video_a_path = video_path fw new_id ''a'' (model_name model_a);
                   video_b_path = video_path fw new_id ''b'' (model_name model_b);
                   fw1 = save_video (save_video fw video_a video_a_path) video_b video_b_path;
                   swap = (randomize_order \<and> random_draw < 1 / 2);
                   labels = (if swap
                             then [(''A'', model_name model_b), (''B'', model_name model_a)]
                             else [(''A'', model_name model_a), (''B'', model_name model_b)]);
                   display_video_a = (if swap then video_b_path else video_a_path);
                   display_video_b = (if swap then video_a_path else video_b_path)
               in case getitem scenario ''name'' of
                    Inl e \<Rightarrow> (Inl e, fw1)
                  | Inr name \<Rightarrow>
                      (case getitem scenario ''actions'' of
                         Inl e \<Rightarrow> (Inl e, fw1)
                       | Inr actions \<Rightarrow>
                           let comparison =
                                 \<lparr>comparison_id = new_id,
                                  scenario_id = get_default scenario ''id'' name,
                                  model_a_name = model_name model_a,
                                  model_b_name = model_name model_b,
                                  model_a_video_path = display_video_a,
                                  model_b_video_path = display_video_b,
                                  action_sequence = actions,
                                  scenario_metadata = scenario,
                                  randomized_labels = labels,
                                  created_at = now\<rparr>
                           in (Inr comparison, save_comparison fw1 comparison))))"

section \<open>The evaluation analyzer\<close>

subsection \<open>calculate_model_performance\<close>

type_synonym model_scores = "(string, (string, real list) dict) dict"

definition append_score :: "model_scores \<Rightarrow> string \<Rightarrow> string \<Rightarrow> real \<Rightarrow> model_scores" where
  "append_score ms model dimension v =
     setdefault_update model [] (setdefault_update dimension [] (\<lambda>scores. scores @ [v])) ms"

definition score_choice :: "string \<Rightarrow> string \<Rightarrow> model_scores \<Rightarrow> string \<times> string \<Rightarrow> model_scores"
  where
  "score_choice model_a_actual model_b_actual ms item =
     (let dimension = fst item; choice = snd item in
      if choice = ''A'' then
        append_score (append_score ms model_a_actual dimension 1) model_b_actual dimension 0
      else if choice = ''B'' then
        append_score (append_score ms model_a_actual dimension 0) model_b_actual dimension 1
      else
        append_score (append_score ms model_a_actual dimension (1 / 2))
          model_b_actual dimension (1 / 2))"

definition score_result ::
  "(string \<rightharpoonup> video_comparison) \<Rightarrow> model_scores \<Rightarrow> evaluation_result \<Rightarrow> error + model_scores"
  where
  "score_result comparisons ms result =
     (case comparisons (result_comparison_id result) of
        None \<Rightarrow> Inr ms
      | Some comparison \<Rightarrow>
          (case getitem (randomized_labels comparison) ''A'' of
             Inl e \<Rightarrow> Inl e
           | Inr model_a_actual \<Rightarrow>
               (case getitem (randomized_labels comparison) ''B'' of
                  Inl e \<Rightarrow> Inl e
                | Inr model_b_actual \<Rightarrow>
                    Inr (foldl (score_choice model_a_actual model_b_actual) ms
                           (dimension_scores result)))))"

fun score_results ::
  "(string \<rightharpoonup> video_comparison) \<Rightarrow> model_scores \<Rightarrow> evaluation_result list
     \<Rightarrow> error + model_scores"
  where
  "score_results comparisons ms [] = Inr ms"
| "score_results comparisons ms (result # results) =
     (case score_result comparisons ms result of
        Inl e \<Rightarrow> Inl e
      | Inr ms' \<Rightarrow> score_results comparisons ms' results)"

record performance_row =
  row_model :: string
  row_dimension :: string
  win_rate :: real
  num_evaluations :: nat
  std_error :: real

definition performance_data :: "model_scores \<Rightarrow> performance_row list" where
  "performance_data ms =
     concat (map (\<lambda>(m, dimensions).
       concat (map (\<lambda>(d, scores).
         if scores \<noteq> [] then
           [\<lparr>row_model = m, row_dimension = d, win_rate = np_mean scores,
             num_evaluations = length scores,
             std_error = np_std scores / sqrt (real (length scores))\<rparr>]
         else []) dimensions)) ms)"

definition calculate_model_performance ::
  "(string \<rightharpoonup> video_comparison) \<Rightarrow> evaluation_result list \<Rightarrow> error + performance_row list"
  where
  "calculate_model_performance comparisons results =
     (case score_results comparisons [] results of
        Inl e \<Rightarrow> Inl e
      | Inr ms \<Rightarrow> Inr (performance_data ms))"

subsection \<open>calculate_inter_rater_reliability\<close>

definition group_by_comparison ::
  "evaluation_result list \<Rightarrow> (string, evaluation_result list) dict" where
  "group_by_comparison results =
     foldl (\<lambda>comparison_results result.
              setdefault_update (result_comparison_id result) [] (\<lambda>rs. rs @ [result])
                comparison_results)
       [] results"

record votes =
  votes_A :: nat
  votes_B :: nat
  votes_Equal :: nat

text \<open>\<^verbatim>\<open>votes[choice] += 1\<close> on a dict with the keys A, B and Equal.\<close>

definition add_vote :: "votes \<Rightarrow> string \<Rightarrow> error + votes" where
  "add_vote vs choice =
     (if choice = ''A'' then Inr (vs\<lparr>votes_A := votes_A vs + 1\<rparr>)
      else if choice = ''B'' then Inr (vs\<lparr>votes_B := votes_B vs + 1\<rparr>)
      else if choice = ''Equal'' then Inr (vs\<lparr>votes_Equal := votes_Equal vs + 1\<rparr>)
      else Inl (KeyError choice))"

text \<open>\<^verbatim>\<open>choice = result.dimension_scores.get(dimension, 'Equal')\<close>\<close>

definition vote_for :: "string \<Rightarrow> evaluation_result \<Rightarrow> string" where
  "vote_for dimension result = get_default (dimension_scores result) dimension ''Equal''"

fun count_votes :: "string \<Rightarrow> votes \<Rightarrow> evaluation_result list \<Rightarrow> error + votes" where
  "count_votes dimension vs [] = Inr vs"
| "count_votes dimension vs (result # results) =
     (case add_vote vs (vote_for dimension result) of
        Inl e \<Rightarrow> Inl e
      | Inr vs' \<Rightarrow> count_votes dimension vs' results)"

fun build_rating_matrix ::
  "string \<Rightarrow> (string, evaluation_result list) dict \<Rightarrow> error + nat list list" where
  "build_rating_matrix dimension [] = Inr []"
| "build_rating_matrix dimension ((comp_id, results) # groups) =
     (if length results < 2 then build_rating_matrix dimension groups
      else
        case count_votes dimension \<lparr>votes_A = 0, votes_B = 0, votes_Equal = 0\<rparr> results of
          Inl e \<Rightarrow> Inl e
        | Inr vs \<Rightarrow>
            (case build_rating_matrix dimension groups of
               Inl e \<Rightarrow> Inl e
             | Inr rating_matrix \<Rightarrow>
                 Inr ([votes_A vs, votes_B vs, votes_Equal vs] # rating_matrix)))"

text \<open>
  The loop that fills \<open>P_i\<close> is written
  \<^verbatim>\<open>P_i.append((rating_array[i] ** 2).sum() - n_raters) / (n_raters * (n_raters - 1))\<close>:
  the division is applied to the value of \<^verbatim>\<open>P_i.append(...)\<close>, which is
  \<^verbatim>\<open>None\<close>, and dividing \<^verbatim>\<open>None\<close> by a number raises TypeError.
\<close>

definition none_truediv :: "real \<Rightarrow> error + real" where
  "none_truediv divisor = Inl TypeError"

fun P_i_loop :: "nat list list \<Rightarrow> nat \<Rightarrow> real list \<Rightarrow> nat list \<Rightarrow> error + real list" where
  "P_i_loop rating_array n_raters P_i [] = Inr P_i"
| "P_i_loop rating_array n_raters P_i (i # rest) =
     (let P_i' = P_i @ [real (sum_list (map (\<lambda>n. n ^ 2) (rating_array ! i))) - real n_raters]
      in case none_truediv (real n_raters * (real n_raters - 1)) of
           Inl e \<Rightarrow> Inl e
         | Inr _ \<Rightarrow> P_i_loop rating_array n_raters P_i' rest)"

definition fleiss_kappa :: "nat list list \<Rightarrow> error + real" where
  "fleiss_kappa rating_array =
     (let n_raters = sum_list (rating_array ! 0);
          n_subjects = length rating_array;
          p_j = map (\<lambda>j. real (sum_list (map (\<lambda>row. row ! j) rating_array))
                          / real (n_raters * n_subjects)) [0 ..< 3];
          P_e_bar = sum_list (map (\<lambda>p. p ^ 2) p_j)
      in case P_i_loop rating_array n_raters [] [0 ..< n_subjects] of
           Inl e \<Rightarrow> Inl e
         | Inr P_i \<Rightarrow>
             let P_bar = np_mean P_i
             in Inr (if P_e_bar < 1 then (P_bar - P_e_bar) / (1 - P_e_bar) else 1))"

fun kappa_loop ::
  "(string, evaluation_result list) dict \<Rightarrow> (string, real) dict \<Rightarrow> string list
     \<Rightarrow> error + (string, real) dict" where
  "kappa_loop comparison_results kappa_scores [] = Inr kappa_scores"
| "kappa_loop comparison_results kappa_scores (dimension # rest) =
     (case build_rating_matrix dimension comparison_results of
        Inl e \<Rightarrow> Inl e
      | Inr rating_matrix \<Rightarrow>
          if rating_matrix \<noteq> [] then
            (case fleiss_kappa rating_matrix of
               Inl e \<Rightarrow> Inl e
             | Inr kappa \<Rightarrow>
                 kappa_loop comparison_results (kappa_scores @ [(dimension, kappa)]) rest)
          else kappa_loop comparison_results kappa_scores rest)"

definition dimensions :: "string list" where
  "dimensions =
     [''overall_quality'', ''controllability'', ''visual_quality'', ''temporal_consistency'']"

definition calculate_inter_rater_reliability ::
  "evaluation_result list \<Rightarrow> error + (string, real) dict" where
  "calculate_inter_rater_reliability results =
     kappa_loop (group_by_comparison results) [] dimensions"

section \<open>Sample records\<close>

definition sample_evaluation ::
  "string \<Rightarrow> string \<Rightarrow> (string, string) dict \<Rightarrow> evaluation_result" where
  "sample_evaluation evaluator cid scores =
     \<lparr>result_id = evaluator @ ''-'' @ cid, result_comparison_id = cid, evaluator_id = evaluator,
      dimension_scores = scores, detailed_ratings = [], completion_time_seconds = 60,
      submitted_at = 0\<rparr>"

definition sample_comparison :: "string \<Rightarrow> string \<Rightarrow> string \<Rightarrow> bool \<Rightarrow> video_comparison" where
  "sample_comparison cid a b swapped =
     \<lparr>comparison_id = cid, scenario_id = AStr ''scenario'', model_a_name = a, model_b_name = b,
      model_a_video_path = (if swapped then ''b.mp4'' else ''a.mp4''),
      model_b_video_path = (if swapped then ''a.mp4'' else ''b.mp4''),
      action_sequence = AList [], scenario_metadata = [],
      randomized_labels = (if swapped then [(''A'', b), (''B'', a)] else [(''A'', a), (''B'', b)]),
      created_at = 0\<rparr>"

section \<open>The aggregation as the specification words it\<close>

text \<open>
  The outcome an evaluator's choice gives the model behind label A, and the one it gives
  the model behind label B: \<open>1\<close> and \<open>0\<close> for the choice A, the inverse for B, and
  \<open>0.5\<close> each otherwise (Equal).
\<close>

definition outcome_for_A :: "string \<Rightarrow> real" where
  "outcome_for_A choice = (if choice = ''A'' then 1 else if choice = ''B'' then 0 else 1 / 2)"

definition outcome_for_B :: "string \<Rightarrow> real" where
  "outcome_for_B choice = (if choice = ''A'' then 0 else if choice = ''B'' then 1 else 1 / 2)"

text \<open>
  The outcomes of one model in one dimension: every evaluation result whose comparison is
  stored contributes, for each of its entries in that dimension, one outcome to the model
  behind label A and one to the model behind label B.
\<close>

definition result_outcomes ::
  "(string \<rightharpoonup> video_comparison) \<Rightarrow> string \<Rightarrow> string \<Rightarrow> evaluation_result \<Rightarrow> real list" where
  "result_outcomes comparisons m d result =
     (case comparisons (result_comparison_id result) of
        None \<Rightarrow> []
      | Some comparison \<Rightarrow>
          concat (map (\<lambda>(dimension, choice).
                   if dimension = d then
                     (if map_of (randomized_labels comparison) ''A'' = Some m
                      then [outcome_for_A choice] else [])
                     @ (if map_of (randomized_labels comparison) ''B'' = Some m
                        then [outcome_for_B choice] else [])
                   else [])
            (dimension_scores result)))"

definition outcomes ::
  "(string \<rightharpoonup> video_comparison) \<Rightarrow> evaluation_result list \<Rightarrow> string \<Rightarrow> string \<Rightarrow> real list"
  where
  "outcomes comparisons results m d = concat (map (result_outcomes comparisons m d) results)"

text \<open>The number of evaluation results whose comparison is not stored.\<close>

definition orphaned :: "(string \<rightharpoonup> video_comparison) \<Rightarrow> evaluation_result list \<Rightarrow> nat" where
  "orphaned comparisons results =
     length (filter (\<lambda>r. comparisons (result_comparison_id r) = None) results)"

text \<open>
  The scores a nested defaultdict holds for a model and a dimension, and the invariant of
  a Python dict: no key twice.
\<close>

definition get_scores :: "model_scores \<Rightarrow> string \<Rightarrow> string \<Rightarrow> real list" where
  "get_scores ms m d =
     (case map_of ms m of None \<Rightarrow> [] | Some ds \<Rightarrow> (case map_of ds d of None \<Rightarrow> [] | Some l \<Rightarrow> l))"

definition wf_scores :: "model_scores \<Rightarrow> bool" where
  "wf_scores ms \<longleftrightarrow> distinct (map fst ms) \<and> list_all (\<lambda>(m, ds). distinct (map fst ds)) ms"

definition performance_row_of :: "string \<Rightarrow> string \<Rightarrow> real list \<Rightarrow> performance_row" where
  "performance_row_of m d scores =
     \<lparr>row_model = m, row_dimension = d, win_rate = np_mean scores,
      num_evaluations = length scores,
      std_error = np_std scores / sqrt (real (length scores))\<rparr>"

section \<open>Properties of the statistical tests\<close>

text \<open>
  C8. With an effective sample size of zero (no wins on either side, and no ties when
  ties are counted), \<open>binomial_test\<close> raises nothing and returns exactly
  \<open>p_value = 1\<close>, \<open>win_rate_a = 0.5\<close>, the interval \<open>[0, 1]\<close> and
  \<open>significant = False\<close>.
\<close>

theorem binomial_test_degenerate:
  "binomial_test 0 0 ties True =
     Inr \<lparr>p_value = 1, win_rate_a = 1 / 2, ci_lower = 0, ci_upper = 1, significant = False\<rparr>
   \<and> binomial_test 0 0 0 False =
     Inr \<lparr>p_value = 1, win_rate_a = 1 / 2, ci_lower = 0, ci_upper = 1, significant = False\<rparr>"
  by (simp add: binomial_test_def)

subsection \<open>The error function near zero\<close>












subsection \<open>mcnemar_test on a balanced table\<close>



section \<open>Properties of the reliability analyzer\<close>

subsection \<open>Dictionaries and grouping\<close>

lemma map_fst_setdefault_update:
  "map fst (setdefault_update k dflt f d) =
     (if k \<in> fst ` set d then map fst d else map fst d @ [k])"
  by (induction d) (auto split: if_splits)

lemma distinct_setdefault_update:
  "distinct (map fst d) \<Longrightarrow> distinct (map fst (setdefault_update k dflt f d))"
  by (simp add: map_fst_setdefault_update)

lemma map_of_setdefault_update:
  "map_of (setdefault_update k dflt f d) k' =
     (if k' = k then Some (f (case map_of d k of None \<Rightarrow> dflt | Some v \<Rightarrow> v))
      else map_of d k')"
  by (induction d) auto

lemma group_by_comparison_snoc:
  "group_by_comparison (results @ [r]) =
     setdefault_update (result_comparison_id r) [] (\<lambda>rs. rs @ [r]) (group_by_comparison results)"
  by (simp add: group_by_comparison_def)

lemma distinct_group_by_comparison: "distinct (map fst (group_by_comparison results))"
proof (induction results rule: rev_induct)
  case Nil
  show ?case by (simp add: group_by_comparison_def)
next
  case (snoc r results)
  then show ?case
    by (simp only: group_by_comparison_snoc distinct_setdefault_update)
qed

lemma map_of_group_by_comparison:
  "map_of (group_by_comparison results) cid =
     (if cid \<in> result_comparison_id ` set results
      then Some (filter (\<lambda>r. result_comparison_id r = cid) results) else None)"
proof (induction results arbitrary: cid rule: rev_induct)
  case Nil
  show ?case by (simp add: group_by_comparison_def)
next
  case (snoc r results)
  have none: "filter (\<lambda>x. result_comparison_id x = c) results = []"
    if "c \<notin> result_comparison_id ` set results" for c
    using that by (auto simp: filter_empty_conv)
  show ?case
  proof (cases "cid = result_comparison_id r")
    case True
    then show ?thesis
      by (simp add: group_by_comparison_snoc map_of_setdefault_update snoc.IH none)
  next
    case False
    then show ?thesis
      by (simp add: group_by_comparison_snoc map_of_setdefault_update snoc.IH)
  qed
qed

lemma group_members:
  assumes "(cid, rs) \<in> set (group_by_comparison results)"
  shows "rs = filter (\<lambda>r. result_comparison_id r = cid) results"
proof -
  from assms distinct_group_by_comparison have "map_of (group_by_comparison results) cid = Some rs"
    by (simp add: map_of_eq_Some_iff)
  then show ?thesis
    by (simp add: map_of_group_by_comparison split: if_splits)
qed

lemma count_votes_valid:
  assumes "\<And>r. r \<in> set results \<Longrightarrow> vote_for dimension r \<in> {''A'', ''B'', ''Equal''}"
  shows "count_votes dimension vs results =
     Inr \<lparr>votes_A = votes_A vs + length (filter (\<lambda>r. vote_for dimension r = ''A'') results),
          votes_B = votes_B vs + length (filter (\<lambda>r. vote_for dimension r = ''B'') results),
          votes_Equal = votes_Equal vs
                        + length (filter (\<lambda>r. vote_for dimension r = ''Equal'') results)\<rparr>"
  using assms
proof (induction results arbitrary: vs)
  case Nil
  show ?case by simp
next
  case (Cons r results)
  have v: "vote_for dimension r \<in> {''A'', ''B'', ''Equal''}" using Cons.prems by simp
  have rest: "\<And>r'. r' \<in> set results \<Longrightarrow> vote_for dimension r' \<in> {''A'', ''B'', ''Equal''}"
    using Cons.prems by simp
  from v show ?case
    by (auto simp: add_vote_def Cons.IH [OF rest])
qed

lemma build_rating_matrix_valid:
  assumes "\<And>cid rs r. (cid, rs) \<in> set groups \<Longrightarrow> r \<in> set rs
             \<Longrightarrow> vote_for dimension r \<in> {''A'', ''B'', ''Equal''}"
  shows "build_rating_matrix dimension groups =
     Inr (map (\<lambda>(cid, rs).
                 [length (filter (\<lambda>r. vote_for dimension r = ''A'') rs),
                  length (filter (\<lambda>r. vote_for dimension r = ''B'') rs),
                  length (filter (\<lambda>r. vote_for dimension r = ''Equal'') rs)])
            (filter (\<lambda>(cid, rs). 2 \<le> length rs) groups))"
  using assms
proof (induction groups)
  case Nil
  show ?case by simp
next
  case (Cons g groups)
  obtain cid rs where g: "g = (cid, rs)" by (cases g)
  have here: "\<And>r. r \<in> set rs \<Longrightarrow> vote_for dimension r \<in> {''A'', ''B'', ''Equal''}"
    using Cons.prems [of cid rs] g by simp
  have rest: "\<And>cid rs r. (cid, rs) \<in> set groups \<Longrightarrow> r \<in> set rs
             \<Longrightarrow> vote_for dimension r \<in> {''A'', ''B'', ''Equal''}"
    using Cons.prems by (meson list.set_intros(2))
  show ?case
    by (simp add: g Cons.IH [OF rest] count_votes_valid [OF here] not_less)
qed

lemma votes_partition:
  assumes "\<And>r. r \<in> set rs \<Longrightarrow> vote_for dimension r \<in> {''A'', ''B'', ''Equal''}"
  shows "length (filter (\<lambda>r. vote_for dimension r = ''A'') rs)
         + length (filter (\<lambda>r. vote_for dimension r = ''B'') rs)
         + length (filter (\<lambda>r. vote_for dimension r = ''Equal'') rs) = length rs"
  using assms by (induction rs) auto

lemma vote_for_Equal:
  "vote_for dimension r = ''Equal'' \<longleftrightarrow>
     map_of (dimension_scores r) dimension = None
     \<or> map_of (dimension_scores r) dimension = Some ''Equal''"
  by (simp add: vote_for_def get_default_def split: option.splits)

lemma fleiss_kappa_raises: "rating_array \<noteq> [] \<Longrightarrow> fleiss_kappa rating_array = Inl TypeError"
  by (cases rating_array) (simp_all add: fleiss_kappa_def Let_def none_truediv_def upt_rec)

lemma P_i_loop_raises: "idx \<noteq> [] \<Longrightarrow> P_i_loop rating_array n_raters P_i idx = Inl TypeError"
  by (cases idx) (simp_all add: none_truediv_def Let_def)

lemma vote_for_A: "vote_for dimension r = ''A'' \<longleftrightarrow> map_of (dimension_scores r) dimension = Some ''A''"
  by (simp add: vote_for_def get_default_def split: option.splits)

lemma vote_for_B: "vote_for dimension r = ''B'' \<longleftrightarrow> map_of (dimension_scores r) dimension = Some ''B''"
  by (simp add: vote_for_def get_default_def split: option.splits)

subsection \<open>The rating matrix\<close>

text \<open>
  C10. When every vote for the dimension is one of A, B and Equal, the rating matrix has
  one row for each comparison with at least two evaluation results, in the order the
  comparisons first occur. The third entry of a row counts the results that chose Equal
  together with those that have no entry for the dimension, and the three entries of a row
  add up to the number of evaluation results of the comparison.
\<close>

theorem rating_matrix_counts_every_evaluator:
  assumes valid: "\<And>r. r \<in> set results \<Longrightarrow> vote_for dimension r \<in> {''A'', ''B'', ''Equal''}"
  shows "\<exists>rating_matrix.
     build_rating_matrix dimension (group_by_comparison results) = Inr rating_matrix
     \<and> rating_matrix =
         map (\<lambda>(cid, rs).
               [length (filter (\<lambda>r. map_of (dimension_scores r) dimension = Some ''A'') rs),
                length (filter (\<lambda>r. map_of (dimension_scores r) dimension = Some ''B'') rs),
                length (filter (\<lambda>r. map_of (dimension_scores r) dimension = None
                                     \<or> map_of (dimension_scores r) dimension = Some ''Equal'') rs)])
           (filter (\<lambda>(cid, rs). 2 \<le> length rs) (group_by_comparison results))
     \<and> map sum_list rating_matrix =
         map (\<lambda>(cid, rs). length (filter (\<lambda>r. result_comparison_id r = cid) results))
           (filter (\<lambda>(cid, rs). 2 \<le> length rs) (group_by_comparison results))"
proof -
  let ?groups = "group_by_comparison results"
  let ?eligible = "filter (\<lambda>(cid, rs). 2 \<le> length rs) ?groups"
  have members: "rs = filter (\<lambda>r. result_comparison_id r = cid) results"
    if "(cid, rs) \<in> set ?groups" for cid rs
    using that by (rule group_members)
  have valid_groups: "vote_for dimension r \<in> {''A'', ''B'', ''Equal''}"
    if "(cid, rs) \<in> set ?groups" "r \<in> set rs" for cid rs r
    using members [OF that(1)] that(2) valid by simp
  have built: "build_rating_matrix dimension ?groups =
     Inr (map (\<lambda>(cid, rs).
                 [length (filter (\<lambda>r. vote_for dimension r = ''A'') rs),
                  length (filter (\<lambda>r. vote_for dimension r = ''B'') rs),
                  length (filter (\<lambda>r. vote_for dimension r = ''Equal'') rs)])
            ?eligible)"
    by (rule build_rating_matrix_valid) (rule valid_groups)
  have sums: "sum_list [length (filter (\<lambda>r. vote_for dimension r = ''A'') rs),
                  length (filter (\<lambda>r. vote_for dimension r = ''B'') rs),
                  length (filter (\<lambda>r. vote_for dimension r = ''Equal'') rs)]
              = length (filter (\<lambda>r. result_comparison_id r = cid) results)"
    if "(cid, rs) \<in> set ?eligible" for cid rs
  proof -
    from that have g: "(cid, rs) \<in> set ?groups" by simp
    have "length (filter (\<lambda>r. vote_for dimension r = ''A'') rs)
         + length (filter (\<lambda>r. vote_for dimension r = ''B'') rs)
         + length (filter (\<lambda>r. vote_for dimension r = ''Equal'') rs) = length rs"
      by (rule votes_partition) (rule valid_groups [OF g])
    with members [OF g] show ?thesis by simp
  qed
  note sums' = sums [unfolded vote_for_A vote_for_B vote_for_Equal]
  show ?thesis
    unfolding built
    by (intro exI conjI refl) (auto simp: vote_for_A vote_for_B vote_for_Equal sums'
          simp del: sum_list.Cons)
qed

theorem rating_matrix_counts_every_evaluator_witness:
  "vote_for ''visual_quality'' (sample_evaluation ''e1'' ''c1'' [(''visual_quality'', ''A'')])
     \<in> {''A'', ''B'', ''Equal''}
   \<and> vote_for ''visual_quality'' (sample_evaluation ''e2'' ''c1'' [(''overall_quality'', ''B'')])
     \<in> {''A'', ''B'', ''Equal''}
   \<and> build_rating_matrix ''visual_quality''
       (group_by_comparison
          [sample_evaluation ''e1'' ''c1'' [(''visual_quality'', ''A'')],
           sample_evaluation ''e2'' ''c1'' [(''overall_quality'', ''B'')]]) = Inr [[1, 0, 1]]"
proof -
  have h: "vote_for ''visual_quality'' r \<in> {''A'', ''B'', ''Equal''}"
    if "r \<in> set [sample_evaluation ''e1'' ''c1'' [(''visual_quality'', ''A'')],
                   sample_evaluation ''e2'' ''c1'' [(''overall_quality'', ''B'')]]" for r
    using that by (auto simp: vote_for_def get_default_def sample_evaluation_def)
  show ?thesis
    using rating_matrix_counts_every_evaluator
      [of "[sample_evaluation ''e1'' ''c1'' [(''visual_quality'', ''A'')],
            sample_evaluation ''e2'' ''c1'' [(''overall_quality'', ''B'')]]" "''visual_quality''",
       OF h]
    by (simp add: vote_for_def get_default_def sample_evaluation_def group_by_comparison_def
          add_vote_def)
qed

subsection \<open>The kappa computation\<close>

text \<open>
  C2. Two evaluators who both chose A for the overall quality of one comparison: the votes
  are unanimous, and the claimed kappa is \<open>1\<close>. The computation does not return: filling
  \<open>P_i\<close> raises TypeError, as it does for every non-empty rating matrix
  (\<open>fleiss_kappa_raises\<close>).
\<close>

theorem kappa_unanimous_raises:
  "calculate_inter_rater_reliability
     [sample_evaluation ''e1'' ''c1'' [(''overall_quality'', ''A'')],
      sample_evaluation ''e2'' ''c1'' [(''overall_quality'', ''A'')]] = Inl TypeError"
  by (simp add: calculate_inter_rater_reliability_def dimensions_def group_by_comparison_def
        sample_evaluation_def vote_for_def get_default_def add_vote_def fleiss_kappa_raises)

section \<open>Properties of the aggregation engine\<close>

subsection \<open>Appending a score\<close>

lemma list_all_setdefault_update:
  assumes "list_all P d" "P (k, f dflt)" "\<And>v. P (k, v) \<Longrightarrow> P (k, f v)"
  shows "list_all P (setdefault_update k dflt f d)"
  using assms by (induction d) auto

lemma wf_scores_Nil: "wf_scores []"
  by (simp add: wf_scores_def)

lemma wf_scores_append_score: "wf_scores ms \<Longrightarrow> wf_scores (append_score ms m d v)"
  unfolding wf_scores_def append_score_def
  by (auto intro!: distinct_setdefault_update list_all_setdefault_update)

lemma get_scores_append_score:
  "get_scores (append_score ms m d v) m' d' =
     get_scores ms m' d' @ (if m' = m \<and> d' = d then [v] else [])"
  by (auto simp: get_scores_def append_score_def map_of_setdefault_update split: option.splits)

lemma wf_scores_score_choice:
  "wf_scores ms \<Longrightarrow> wf_scores (score_choice a b ms item)"
  by (simp add: score_choice_def Let_def wf_scores_append_score)

lemma get_scores_score_choice:
  "get_scores (score_choice a b ms item) m d =
     get_scores ms m d
     @ (if fst item = d then
          (if a = m then [outcome_for_A (snd item)] else [])
          @ (if b = m then [outcome_for_B (snd item)] else [])
        else [])"
  by (simp add: score_choice_def Let_def get_scores_append_score outcome_for_A_def
        outcome_for_B_def)

lemma wf_scores_foldl_score_choice:
  "wf_scores ms \<Longrightarrow> wf_scores (foldl (score_choice a b) ms items)"
  by (induction items arbitrary: ms) (simp_all add: wf_scores_score_choice)

lemma get_scores_foldl_score_choice:
  "get_scores (foldl (score_choice a b) ms items) m d =
     get_scores ms m d
     @ concat (map (\<lambda>(dimension, choice).
                 if dimension = d then
                   (if a = m then [outcome_for_A choice] else [])
                   @ (if b = m then [outcome_for_B choice] else [])
                 else []) items)"
proof (induction items arbitrary: ms)
  case Nil
  show ?case by simp
next
  case (Cons item items)
  show ?case
    by (cases item) (simp add: Cons.IH get_scores_score_choice)
qed

subsection \<open>Scoring the evaluation results\<close>

lemma score_result_orphan:
  "comparisons (result_comparison_id r) = None \<Longrightarrow> score_result comparisons ms r = Inr ms"
  by (simp add: score_result_def)

lemma score_result_labelled:
  assumes "comparisons (result_comparison_id r) = Some c"
    and "map_of (randomized_labels c) ''A'' = Some a"
    and "map_of (randomized_labels c) ''B'' = Some b"
  shows "score_result comparisons ms r = Inr (foldl (score_choice a b) ms (dimension_scores r))"
  using assms by (simp add: score_result_def getitem_def)

lemma score_result_scores:
  assumes "\<And>c. comparisons (result_comparison_id r) = Some c \<Longrightarrow>
             map_of (randomized_labels c) ''A'' \<noteq> None \<and> map_of (randomized_labels c) ''B'' \<noteq> None"
    and "wf_scores ms"
  shows "\<exists>ms'. score_result comparisons ms r = Inr ms' \<and> wf_scores ms'
           \<and> (\<forall>m d. get_scores ms' m d = get_scores ms m d @ result_outcomes comparisons m d r)"
proof (cases "comparisons (result_comparison_id r)")
  case None
  then show ?thesis
    using assms(2) by (simp add: score_result_orphan result_outcomes_def)
next
  case (Some c)
  from assms(1) [OF Some] obtain a b
    where a: "map_of (randomized_labels c) ''A'' = Some a"
      and b: "map_of (randomized_labels c) ''B'' = Some b"
    by auto
  have eq: "(a = m) = (Some a = Some m)" "(b = m) = (Some b = Some m)" for m
    by simp_all
  show ?thesis
    unfolding score_result_labelled [of comparisons r c a b ms, OF Some a b]
    using assms(2)
    by (simp add: wf_scores_foldl_score_choice get_scores_foldl_score_choice
          result_outcomes_def Some a b cong: if_cong)
qed

lemma score_results_scores:
  assumes "\<And>r c. r \<in> set results \<Longrightarrow> comparisons (result_comparison_id r) = Some c \<Longrightarrow>
             map_of (randomized_labels c) ''A'' \<noteq> None \<and> map_of (randomized_labels c) ''B'' \<noteq> None"
    and "wf_scores ms"
  shows "\<exists>ms'. score_results comparisons ms results = Inr ms' \<and> wf_scores ms'
           \<and> (\<forall>m d. get_scores ms' m d = get_scores ms m d @ outcomes comparisons results m d)"
  using assms
proof (induction results arbitrary: ms)
  case Nil
  then show ?case by (simp add: outcomes_def)
next
  case (Cons r results)
  have here: "comparisons (result_comparison_id r) = Some c \<Longrightarrow>
             map_of (randomized_labels c) ''A'' \<noteq> None \<and> map_of (randomized_labels c) ''B'' \<noteq> None"
    for c
    using Cons.prems(1) [of r c] by simp
  from score_result_scores [of comparisons r ms, OF here Cons.prems(2)]
  obtain ms1 where ms1: "score_result comparisons ms r = Inr ms1" "wf_scores ms1"
      "\<And>m d. get_scores ms1 m d = get_scores ms m d @ result_outcomes comparisons m d r"
    by blast
  have rest: "\<And>r c. r \<in> set results \<Longrightarrow> comparisons (result_comparison_id r) = Some c \<Longrightarrow>
             map_of (randomized_labels c) ''A'' \<noteq> None \<and> map_of (randomized_labels c) ''B'' \<noteq> None"
    using Cons.prems(1) by (meson list.set_intros(2))
  have "\<exists>ms'. score_results comparisons ms1 results = Inr ms' \<and> wf_scores ms'
           \<and> (\<forall>m d. get_scores ms' m d = get_scores ms1 m d @ outcomes comparisons results m d)"
  proof (rule Cons.IH)
    show "map_of (randomized_labels c) ''A'' \<noteq> None \<and> map_of (randomized_labels c) ''B'' \<noteq> None"
      if "r \<in> set results" "comparisons (result_comparison_id r) = Some c" for r c
      using rest that by blast
    show "wf_scores ms1" by fact
  qed
  then obtain ms2 where ms2: "score_results comparisons ms1 results = Inr ms2" "wf_scores ms2"
      "\<And>m d. get_scores ms2 m d = get_scores ms1 m d @ outcomes comparisons results m d"
    by blast
  show ?case
    by (rule exI [of _ ms2]) (simp add: ms1 ms2 outcomes_def)
qed

subsection \<open>The rows of the performance table\<close>

lemma filter_dimension_rows:
  assumes "distinct (map fst ds)"
  shows "filter (\<lambda>row. row_model row = m \<and> row_dimension row = d)
           (concat (map (\<lambda>(d', scores).
              if scores \<noteq> [] then [performance_row_of m' d' scores] else []) ds)) =
         (if m' = m then
            (case map_of ds d of
               None \<Rightarrow> []
             | Some scores \<Rightarrow> if scores \<noteq> [] then [performance_row_of m d scores] else [])
          else [])"
  using assms
proof (induction ds)
  case Nil
  show ?case by simp
next
  case (Cons x ds)
  obtain d' scores where x: "x = (d', scores)" by (cases x)
  from Cons.prems have dist: "distinct (map fst ds)" and fresh: "d' \<notin> fst ` set ds"
    by (simp_all add: x)
  from fresh have none: "map_of ds d' = None"
    by (simp add: map_of_eq_None_iff)
  show ?case
    by (simp add: x Cons.IH [OF dist] none performance_row_of_def)
qed

lemma performance_data_alt:
  "performance_data ms =
     concat (map (\<lambda>(m, ds).
       concat (map (\<lambda>(d, scores).
         if scores \<noteq> [] then [performance_row_of m d scores] else []) ds)) ms)"
  unfolding performance_data_def performance_row_of_def ..

lemma filter_performance_data:
  assumes "wf_scores ms"
  shows "filter (\<lambda>row. row_model row = m \<and> row_dimension row = d) (performance_data ms) =
         (if get_scores ms m d \<noteq> [] then [performance_row_of m d (get_scores ms m d)] else [])"
  using assms unfolding performance_data_alt
proof (induction ms)
  case Nil
  show ?case by (simp add: get_scores_def)
next
  case (Cons x ms)
  obtain m' ds where x: "x = (m', ds)" by (cases x)
  from Cons.prems have wf: "wf_scores ms" and dist: "distinct (map fst ds)"
    and fresh: "m' \<notin> fst ` set ms"
    by (simp_all add: x wf_scores_def)
  from fresh have none: "map_of ms m' = None"
    by (simp add: map_of_eq_None_iff)
  show ?case
    using none
    by (auto simp: x Cons.IH [OF wf] filter_dimension_rows [OF dist] get_scores_def
          split: option.splits)
qed

subsection \<open>Win rates are the means of the outcomes\<close>

text \<open>
  C1. When the randomized labels of every stored comparison that a result refers to name
  a model for A and for B, the aggregation returns a table, and for every model and
  dimension the rows of the table for that cell are: no row when the cell has no outcome,
  and otherwise exactly one row, whose \<open>win_rate\<close> is the mean of the cell's outcomes,
  whose \<open>num_evaluations\<close> is their number \<open>n\<close> and whose \<open>std_error\<close> is their
  population standard deviation divided by \<open>sqrt n\<close>. The outcomes are those of
  \<open>outcomes\<close>: \<open>1\<close> for the model behind the chosen label, \<open>0\<close> for the other
  model, \<open>0.5\<close> for both on Equal.
\<close>

theorem calculate_model_performance_outcomes:
  assumes labelled:
    "\<And>r c. r \<in> set results \<Longrightarrow> comparisons (result_comparison_id r) = Some c \<Longrightarrow>
       map_of (randomized_labels c) ''A'' \<noteq> None \<and> map_of (randomized_labels c) ''B'' \<noteq> None"
  shows "\<exists>rows. calculate_model_performance comparisons results = Inr rows
     \<and> (\<forall>m d. filter (\<lambda>row. row_model row = m \<and> row_dimension row = d) rows =
           (let os = outcomes comparisons results m d; n = real (length os);
                mean = sum_list os / n
            in if os = [] then []
               else [\<lparr>row_model = m, row_dimension = d, win_rate = mean,
                      num_evaluations = length os,
                      std_error = sqrt (sum_list (map (\<lambda>x. (x - mean) ^ 2) os) / n) / sqrt n\<rparr>]))"
proof -
  have "\<exists>ms'. score_results comparisons [] results = Inr ms' \<and> wf_scores ms'
           \<and> (\<forall>m d. get_scores ms' m d = get_scores [] m d @ outcomes comparisons results m d)"
  proof (rule score_results_scores)
    show "map_of (randomized_labels c) ''A'' \<noteq> None \<and> map_of (randomized_labels c) ''B'' \<noteq> None"
      if "r \<in> set results" "comparisons (result_comparison_id r) = Some c" for r c
      using labelled that by blast
    show "wf_scores []" by (rule wf_scores_Nil)
  qed
  then obtain ms where ms: "score_results comparisons [] results = Inr ms" "wf_scores ms"
      and scores: "\<And>m d. get_scores ms m d = outcomes comparisons results m d"
    by (auto simp: get_scores_def)
  have "calculate_model_performance comparisons results = Inr (performance_data ms)"
    by (simp add: calculate_model_performance_def ms(1))
  moreover have "filter (\<lambda>row. row_model row = m \<and> row_dimension row = d) (performance_data ms) =
           (let os = outcomes comparisons results m d; n = real (length os);
                mean = sum_list os / n
            in if os = [] then []
               else [\<lparr>row_model = m, row_dimension = d, win_rate = mean,
                      num_evaluations = length os,
                      std_error = sqrt (sum_list (map (\<lambda>x. (x - mean) ^ 2) os) / n) / sqrt n\<rparr>])"
    for m d
    unfolding filter_performance_data [OF ms(2)] scores
    by (simp add: performance_row_of_def np_mean_def np_std_def Let_def)
  ultimately show ?thesis by blast
qed

theorem calculate_model_performance_outcomes_witness:
  "map_of (randomized_labels (sample_comparison ''c1'' ''X'' ''Y'' True)) ''A'' \<noteq> None
   \<and> map_of (randomized_labels (sample_comparison ''c1'' ''X'' ''Y'' True)) ''B'' \<noteq> None
   \<and> (\<exists>rows.
        calculate_model_performance [''c1'' \<mapsto> sample_comparison ''c1'' ''X'' ''Y'' True]
          [sample_evaluation ''e1'' ''c1'' [(''overall_quality'', ''A'')],
           sample_evaluation ''e2'' ''c1'' [(''overall_quality'', ''Equal'')],
           sample_evaluation ''e3'' ''c9'' [(''overall_quality'', ''B'')]] = Inr rows
        \<and> filter (\<lambda>row. row_model row = ''Y'' \<and> row_dimension row = ''overall_quality'') rows =
            [\<lparr>row_model = ''Y'', row_dimension = ''overall_quality'', win_rate = 3 / 4,
              num_evaluations = 2,
              std_error = sqrt (sum_list (map (\<lambda>x. (x - 3 / 4) ^ 2) [1, 1 / 2]) / 2) / sqrt 2\<rparr>])"
proof -
  let ?cs = "[''c1'' \<mapsto> sample_comparison ''c1'' ''X'' ''Y'' True]"
  let ?rs = "[sample_evaluation ''e1'' ''c1'' [(''overall_quality'', ''A'')],
           sample_evaluation ''e2'' ''c1'' [(''overall_quality'', ''Equal'')],
           sample_evaluation ''e3'' ''c9'' [(''overall_quality'', ''B'')]]"
  have h: "map_of (randomized_labels c) ''A'' \<noteq> None \<and> map_of (randomized_labels c) ''B'' \<noteq> None"
    if "r \<in> set ?rs" "?cs (result_comparison_id r) = Some c" for r c
    using that by (auto simp: sample_comparison_def split: if_splits)
  have os: "outcomes ?cs ?rs ''Y'' ''overall_quality'' = [1, 1 / 2]"
    by (simp add: outcomes_def result_outcomes_def sample_evaluation_def sample_comparison_def
          outcome_for_A_def outcome_for_B_def)
  let ?cell = "\<lambda>rows m d. filter (\<lambda>row. row_model row = m \<and> row_dimension row = d) rows =
           (let os = outcomes ?cs ?rs m d; n = real (length os);
                mean = sum_list os / n
            in if os = [] then []
               else [\<lparr>row_model = m, row_dimension = d, win_rate = mean,
                      num_evaluations = length os,
                      std_error = sqrt (sum_list (map (\<lambda>x. (x - mean) ^ 2) os) / n) / sqrt n\<rparr>])"
  have "\<exists>rows. calculate_model_performance ?cs ?rs = Inr rows \<and> (\<forall>m d. ?cell rows m d)"
    by (rule calculate_model_performance_outcomes) (rule h)
  then obtain rows where rows: "calculate_model_performance ?cs ?rs = Inr rows"
    and cell: "\<And>m d. ?cell rows m d"
    by blast
  have "filter (\<lambda>row. row_model row = ''Y'' \<and> row_dimension row = ''overall_quality'') rows =
            [\<lparr>row_model = ''Y'', row_dimension = ''overall_quality'', win_rate = 3 / 4,
              num_evaluations = 2,
              std_error = sqrt (sum_list (map (\<lambda>x. (x - 3 / 4) ^ 2) [1, 1 / 2]) / 2) / sqrt 2\<rparr>]"
    unfolding cell [of "''Y''" "''overall_quality''"] os by (simp add: Let_def)
  with rows show ?thesis
    by (simp add: sample_comparison_def)
qed

subsection \<open>Results without a stored comparison\<close>

lemma score_results_filter_orphans:
  "score_results comparisons ms
     (filter (\<lambda>r. comparisons (result_comparison_id r) \<noteq> None) results) =
   score_results comparisons ms results"
proof (induction results arbitrary: ms)
  case Nil
  show ?case by simp
next
  case (Cons r results)
  show ?case
  proof (cases "comparisons (result_comparison_id r)")
    case None
    then show ?thesis by (simp add: Cons.IH score_result_orphan del: not_None_eq)
  next
    case (Some c)
    then show ?thesis by (simp add: Cons.IH del: not_None_eq split: sum.splits)
  qed
qed

text \<open>
  C4, amended. An evaluation result whose comparison is not stored is excluded from the
  aggregation: the table is the one computed from the results whose comparison is stored.
  It carries no count of the results left out.
\<close>

theorem orphaned_results_excluded:
  "calculate_model_performance comparisons results =
   calculate_model_performance comparisons
     (filter (\<lambda>r. comparisons (result_comparison_id r) \<noteq> None) results)"
  by (simp only: calculate_model_performance_def score_results_filter_orphans)

text \<open>
  C4 as stated fails: with one orphaned result and with none the aggregation returns the
  same, empty, table, so its output tells nothing of the number of orphaned results.
\<close>

theorem orphaned_results_counterexample:
  "calculate_model_performance Map.empty
     [sample_evaluation ''e1'' ''c1'' [(''overall_quality'', ''A'')]] = Inr []
   \<and> calculate_model_performance Map.empty [] = Inr []
   \<and> orphaned Map.empty [sample_evaluation ''e1'' ''c1'' [(''overall_quality'', ''A'')]] = 1
   \<and> orphaned Map.empty [] = 0"
  by (simp add: calculate_model_performance_def score_result_def performance_data_def
        orphaned_def)

end
